theory Spec2Isabelle
  imports Complex_Main
begin

section \<open>Data model (types.ts and the state of the App component)\<close>

text \<open>
  The enum \<open>ConnectionState\<close> of types.ts.
\<close>

datatype ConnectionState = DISCONNECTED | CONNECTING | CONNECTED | ERROR

text \<open>
  \<open>LeadData\<close> and \<open>ToolArgs\<close> are JavaScript objects whose properties are all optional
  strings: a map from property name to value. An absent property is \<open>None\<close>.
\<close>

type_synonym LeadData = "string \<rightharpoonup> string"

type_synonym ToolArgs = "string \<rightharpoonup> string"

datatype Role = RoleUser | RoleAssistant | RoleSystem

text \<open>
  The text of a log line is either a fixed literal or the template
  \<^verbatim>\<open>[CRM Update] ${JSON.stringify(args)}\<close>, kept symbolic. The timestamp
  (\<^verbatim>\<open>new Date()\<close>) of a \<open>LogMessage\<close> is left out.
\<close>

datatype LogText = Literal string | CrmUpdate ToolArgs

record LogMessage =
  log_role :: Role
  log_text :: LogText

text \<open>One entry of \<^verbatim>\<open>msg.toolCall.functionCalls\<close>.\<close>

record FunctionCall =
  fc_id :: string
  fc_name :: string
  fc_args :: ToolArgs

text \<open>
  One entry of the \<^verbatim>\<open>functionResponses\<close> list:
  \<^verbatim>\<open>{ id, name, response: { result } }\<close>.
\<close>

record FunctionResponse =
  fr_id :: string
  fr_name :: string
  fr_result :: string

text \<open>
  The parts of a \<open>LiveServerMessage\<close> that \<open>onmessage\<close> reads:
  \<^verbatim>\<open>msg.toolCall\<close> (its \<^verbatim>\<open>functionCalls\<close>),
  \<^verbatim>\<open>msg.serverContent?.modelTurn?.parts?.[0]?.inlineData?.data\<close> and
  \<^verbatim>\<open>msg.serverContent?.interrupted\<close>.
\<close>

record LiveServerMessage =
  toolCall :: "FunctionCall list option"
  audioData :: "string option"
  interrupted :: bool

text \<open>
  The session promise held in \<open>sessionPromiseRef\<close>, by the way it settles:
  \<open>Fulfilled\<close> runs the \<^verbatim>\<open>.then\<close> callbacks, \<open>Rejected\<close> the
  \<^verbatim>\<open>.catch\<close> ones.
\<close>

datatype SessionPromise = Fulfilled | Rejected

text \<open>
  The calls the component makes on objects outside itself, in the order it makes them.
  An \<open>AudioBufferSourceNode\<close> is identified by a number, given at
  \<^verbatim>\<open>createBufferSource\<close>; \<open>SourceStart h t d\<close> is \<^verbatim>\<open>source.start(t)\<close> on
  the node \<open>h\<close> whose buffer lasts \<open>d\<close> seconds. \<open>SetConnectionState\<close> records every
  call of the state setter, so that the states passed through can be read off.
\<close>

datatype Effect =
    SetConnectionState ConnectionState
  | GetUserMedia
  | LiveConnect
  | SendRealtimeInput string
  | SendToolResponse "FunctionResponse list"
  | SourceStart nat real real
  | SourceStop nat
  | ProcessorDisconnect
  | SourceDisconnect
  | TracksStop
  | InputContextClose
  | OutputContextClose

text \<open>
  The React state (\<^verbatim>\<open>useState\<close>) and the refs (\<^verbatim>\<open>useRef\<close>) of \<open>App\<close>. A ref
  to a browser object is \<open>True\<close> when it holds the object and \<open>False\<close> when it is
  \<^verbatim>\<open>null\<close>. \<open>scheduledSourcesRef\<close> is the \<^verbatim>\<open>Set\<close> of source nodes in insertion
  order (the order \<^verbatim>\<open>forEach\<close> visits). \<open>created\<close> counts the source nodes created
  so far and numbers the next one; \<open>trace\<close> collects the effects.
\<close>

record App =
  apiKey :: string
  connectionState :: ConnectionState
  leadData :: LeadData
  logs :: "LogMessage list"
  volume :: "real option"
  isModelSpeaking :: bool
  errorMsg :: "string option"
  inputAudioContextRef :: bool
  outputAudioContextRef :: bool
  mediaStreamRef :: bool
  processorRef :: bool
  sourceRef :: bool
  sessionPromiseRef :: "SessionPromise option"
  nextStartTimeRef :: real
  scheduledSourcesRef :: "nat list"
  created :: nat
  trace :: "Effect list"

text \<open>
  The component as first rendered; \<open>key\<close> is \<^verbatim>\<open>process.env.API_KEY || ''\<close>.
\<close>

definition initialApp :: "string \<Rightarrow> App" where
  "initialApp key =
     \<lparr> apiKey = key, connectionState = DISCONNECTED, leadData = Map.empty, logs = [],
       volume = Some 0, isModelSpeaking = False, errorMsg = None,
       inputAudioContextRef = False, outputAudioContextRef = False,
       mediaStreamRef = False, processorRef = False, sourceRef = False,
       sessionPromiseRef = None, nextStartTimeRef = 0, scheduledSourcesRef = [],
       created = 0, trace = [] \<rparr>"

definition emit :: "Effect list \<Rightarrow> App \<Rightarrow> App" where
  "emit es s = s\<lparr>trace := trace s @ es\<rparr>"

definition setConnectionState :: "ConnectionState \<Rightarrow> App \<Rightarrow> App" where
  "setConnectionState c s = emit [SetConnectionState c] (s\<lparr>connectionState := c\<rparr>)"

definition addLog :: "Role \<Rightarrow> LogText \<Rightarrow> App \<Rightarrow> App" where
  "addLog r t s = s\<lparr>logs := logs s @ [\<lparr>log_role = r, log_text = t\<rparr>]\<rparr>"

section \<open>Capture: the volume meter of \<open>processor.onaudioprocess\<close>\<close>

text \<open>
  \<^verbatim>\<open>let sum = 0; for (i...) sum += inputData[i] * inputData[i];\<close> Samples are
  modelled as real numbers.
\<close>

definition sumSquares :: "real list \<Rightarrow> real" where
  "sumSquares inputData = fold (\<lambda>x sum. sum + x * x) inputData 0"

text \<open>
  \<^verbatim>\<open>Math.min(Math.sqrt(sum / inputData.length) * 5, 1)\<close>. On an empty frame the
  JavaScript divides 0 by 0 and the result is NaN, written \<open>None\<close> here (and in the
  \<open>volume\<close> field of the state).
\<close>

definition frameVolume :: "real list \<Rightarrow> real option" where
  "frameVolume inputData =
     (if inputData = [] then None
      else Some (min (sqrt (sumSquares inputData / real (length inputData)) * 5) 1))"

text \<open>
  The callback: set the volume, encode the frame (\<open>createPcmBlob\<close>, of
  utils/audioUtils, is a parameter) and send it when a session promise is held and
  fulfilled.
\<close>

definition onaudioprocess :: "(real list \<Rightarrow> string) \<Rightarrow> real list \<Rightarrow> App \<Rightarrow> App" where
  "onaudioprocess createPcmBlob inputData s =
     (let s1 = s\<lparr>volume := frameVolume inputData\<rparr>;
          blob = createPcmBlob inputData
      in case sessionPromiseRef s1 of
           Some Fulfilled \<Rightarrow> emit [SendRealtimeInput blob] s1
         | _ \<Rightarrow> s1)"

section \<open>Audio set-up and tear-down\<close>

text \<open>
  What the browser does during \<open>initializeAudio\<close>: the microphone is refused, the input
  or the output \<open>AudioContext\<close> cannot be made, or all succeed.
\<close>

datatype AudioInit = MicDenied | InputContextFails | OutputContextFails | AudioReady

text \<open>
  \<open>initializeAudio\<close> returns the message of the error it throws (\<open>Some\<close>) or \<open>None\<close>,
  with the refs assigned up to that point.
\<close>

definition micError :: string where
  "micError = ''Failed to access microphone. Please allow permissions.''"

definition initializeAudio :: "AudioInit \<Rightarrow> App \<Rightarrow> string option \<times> App" where
  "initializeAudio env s =
     (let s0 = emit [GetUserMedia] s in
      if env = MicDenied then (Some micError, s0)
      else let s1 = s0\<lparr>mediaStreamRef := True\<rparr> in
      if env = InputContextFails then (Some micError, s1)
      else let s2 = s1\<lparr>inputAudioContextRef := True, sourceRef := True, processorRef := True\<rparr> in
      if env = OutputContextFails then (Some micError, s2)
      else (None, s2\<lparr>outputAudioContextRef := True\<rparr>))"

definition stopAudio :: "App \<Rightarrow> App" where
  "stopAudio s =
     (let s1 = (if processorRef s then (emit [ProcessorDisconnect] s)\<lparr>processorRef := False\<rparr> else s);
          s2 = (if sourceRef s1 then (emit [SourceDisconnect] s1)\<lparr>sourceRef := False\<rparr> else s1);
          s3 = (if mediaStreamRef s2 then (emit [TracksStop] s2)\<lparr>mediaStreamRef := False\<rparr> else s2);
          s4 = (if inputAudioContextRef s3
                then (emit [InputContextClose] s3)\<lparr>inputAudioContextRef := False\<rparr> else s3);
          s5 = (if outputAudioContextRef s4
                then (emit [OutputContextClose] s4)\<lparr>outputAudioContextRef := False\<rparr> else s4);
          s6 = emit (map SourceStop (scheduledSourcesRef s5)) s5
      in s6\<lparr>scheduledSourcesRef := [], nextStartTimeRef := 0\<rparr>)"

section \<open>Connecting\<close>

text \<open>
  \<open>connectToLiveAPI\<close>. \<open>env\<close> is the outcome of the audio set-up and \<open>settles\<close> the
  way the promise returned by \<^verbatim>\<open>ai.live.connect\<close> settles. The promise is not
  awaited, so its rejection is not caught by the \<^verbatim>\<open>try\<close>.
\<close>

definition connectToLiveAPI :: "AudioInit \<Rightarrow> SessionPromise \<Rightarrow> App \<Rightarrow> App" where
  "connectToLiveAPI env settles s =
     (if apiKey s = [] then s\<lparr>errorMsg := Some ''API Key is required.''\<rparr>
      else
        let s1 = setConnectionState CONNECTING s;
            s2 = s1\<lparr>errorMsg := None\<rparr>;
            s3 = addLog RoleSystem (Literal ''Initializing audio...'') s2
        in case initializeAudio env s3 of
             (Some message, s4) \<Rightarrow>
               stopAudio (setConnectionState ERROR (s4\<lparr>errorMsg := Some message\<rparr>))
           | (None, s4) \<Rightarrow>
               (let s5 = addLog RoleSystem (Literal ''Connecting to Gemini Live...'') s4;
                    s6 = emit [LiveConnect] s5
                in s6\<lparr>sessionPromiseRef := Some settles\<rparr>))"

definition handleDisconnect :: "App \<Rightarrow> App" where
  "handleDisconnect s =
     (setConnectionState DISCONNECTED (stopAudio s))\<lparr>sessionPromiseRef := None\<rparr>"

section \<open>Session callbacks\<close>

definition onopen :: "App \<Rightarrow> App" where
  "onopen s =
     addLog RoleSystem (Literal ''Connected! Start speaking.'') (setConnectionState CONNECTED s)"

definition onclose :: "App \<Rightarrow> App" where
  "onclose s =
     stopAudio (addLog RoleSystem (Literal ''Connection closed.'')
       (setConnectionState DISCONNECTED s))"

definition onerror :: "App \<Rightarrow> App" where
  "onerror s =
     stopAudio (setConnectionState ERROR
       (s\<lparr>errorMsg := Some ''Connection error occurred. Check console.''\<rparr>))"

subsection \<open>\<open>onmessage\<close>, part 1: tool calls\<close>

text \<open>
  The loop over \<^verbatim>\<open>msg.toolCall.functionCalls\<close>, with the state and the
  \<open>responses\<close> array it fills. \<^verbatim>\<open>{ ...prev, ...args }\<close> is the map \<open>prev ++ args\<close>.
\<close>

definition successResponse :: "FunctionCall \<Rightarrow> FunctionResponse" where
  "successResponse fc =
     \<lparr>fr_id = fc_id fc, fr_name = fc_name fc, fr_result = ''CRM Updated Successfully''\<rparr>"

fun toolCallLoop :: "FunctionCall list \<Rightarrow> App \<Rightarrow> FunctionResponse list
    \<Rightarrow> App \<times> FunctionResponse list" where
  "toolCallLoop [] s responses = (s, responses)"
| "toolCallLoop (fc # fcs) s responses =
     (if fc_name fc = ''updateLeadInfo'' then
        let args = fc_args fc;
            s1 = s\<lparr>leadData := leadData s ++ args\<rparr>;
            s2 = addLog RoleAssistant (CrmUpdate args) s1
        in toolCallLoop fcs s2 (responses @ [successResponse fc])
      else toolCallLoop fcs s responses)"

definition handleToolCall :: "App \<Rightarrow> LiveServerMessage \<Rightarrow> App" where
  "handleToolCall s msg =
     (case toolCall msg of
        None \<Rightarrow> s
      | Some functionCalls \<Rightarrow>
          (case toolCallLoop functionCalls s [] of
             (s1, responses) \<Rightarrow>
               (case sessionPromiseRef s1 of
                  Some Fulfilled \<Rightarrow> emit [SendToolResponse responses] s1
                | _ \<Rightarrow> s1)))"

subsection \<open>\<open>onmessage\<close>, part 2: audio output\<close>

text \<open>
  \<open>decode\<close> stands for \<^verbatim>\<open>atob\<close> followed by \<open>decodeAudioData\<close> (of
  utils/audioUtils): the duration of the decoded buffer, or \<open>None\<close> when either throws.
  \<open>now\<close> is \<^verbatim>\<open>ctx.currentTime\<close>. Times are modelled as real numbers.
\<close>

definition handleAudio :: "(string \<Rightarrow> real option) \<Rightarrow> real \<Rightarrow> App \<Rightarrow> LiveServerMessage \<Rightarrow> App" where
  "handleAudio decode now s msg =
     (case audioData msg of
        None \<Rightarrow> s
      | Some a \<Rightarrow>
          if a \<noteq> [] \<and> outputAudioContextRef s then
            let s1 = s\<lparr>isModelSpeaking := True\<rparr> in
            (case decode a of
               None \<Rightarrow> s1
             | Some duration \<Rightarrow>
                 let s2 = (if nextStartTimeRef s1 < now
                           then s1\<lparr>nextStartTimeRef := now + 0.05\<rparr> else s1);
                     source = created s2;
                     s3 = emit [SourceStart source (nextStartTimeRef s2) duration]
                            (s2\<lparr>created := Suc source\<rparr>);
                     s4 = s3\<lparr>scheduledSourcesRef := scheduledSourcesRef s3 @ [source]\<rparr>
                 in s4\<lparr>nextStartTimeRef := nextStartTimeRef s4 + duration\<rparr>)
          else s)"

text \<open>
  \<open>source.onended\<close> for the node \<open>source\<close>: \<^verbatim>\<open>Set.delete\<close>, then the size test.
\<close>

definition onended :: "nat \<Rightarrow> App \<Rightarrow> App" where
  "onended source s =
     (let s1 = s\<lparr>scheduledSourcesRef := removeAll source (scheduledSourcesRef s)\<rparr>
      in if length (scheduledSourcesRef s1) = 0 then s1\<lparr>isModelSpeaking := False\<rparr> else s1)"

subsection \<open>\<open>onmessage\<close>, part 3: interruptions\<close>

definition handleInterrupted :: "real \<Rightarrow> App \<Rightarrow> LiveServerMessage \<Rightarrow> App" where
  "handleInterrupted now s msg =
     (if interrupted msg then
        let s1 = addLog RoleSystem (Literal ''Model interrupted by user.'') s;
            s2 = emit (map SourceStop (scheduledSourcesRef s1)) s1;
            s3 = s2\<lparr>scheduledSourcesRef := [], isModelSpeaking := False\<rparr>
        in if outputAudioContextRef s3 then s3\<lparr>nextStartTimeRef := now\<rparr> else s3
      else s)"

definition onmessage :: "(string \<Rightarrow> real option) \<Rightarrow> real \<Rightarrow> App \<Rightarrow> LiveServerMessage \<Rightarrow> App" where
  "onmessage decode now s msg =
     handleInterrupted now (handleAudio decode now (handleToolCall s msg) msg) msg"

section \<open>Observations and sample inputs\<close>

text \<open>The start times passed to \<^verbatim>\<open>source.start\<close>, in order.\<close>

fun startTimes :: "Effect list \<Rightarrow> real list" where
  "startTimes [] = []"
| "startTimes (SourceStart h t d # es) = t # startTimes es"
| "startTimes (e # es) = startTimes es"

text \<open>The calls of a tool-call message that the loop acts on.\<close>

definition leadUpdates :: "FunctionCall list \<Rightarrow> FunctionCall list" where
  "leadUpdates fcs = filter (\<lambda>fc. fc_name fc = ''updateLeadInfo'') fcs"

text \<open>Messages that carry one thing only.\<close>

definition audioMessage :: "string \<Rightarrow> LiveServerMessage" where
  "audioMessage a = \<lparr>toolCall = None, audioData = Some a, interrupted = False\<rparr>"

definition interruptionMessage :: LiveServerMessage where
  "interruptionMessage = \<lparr>toolCall = None, audioData = None, interrupted = True\<rparr>"

definition toolCallMessage :: "FunctionCall list \<Rightarrow> LiveServerMessage" where
  "toolCallMessage fcs = \<lparr>toolCall = Some fcs, audioData = None, interrupted = False\<rparr>"

definition updateLeadInfo :: "string \<Rightarrow> ToolArgs \<Rightarrow> FunctionCall" where
  "updateLeadInfo i args = \<lparr>fc_id = i, fc_name = ''updateLeadInfo'', fc_args = args\<rparr>"

text \<open>
  A decoder for the examples: the payload \<open>''bad''\<close> does not decode, any other payload
  decodes to a buffer that lasts as many seconds as the payload has characters.
\<close>

definition sampleDecode :: "string \<Rightarrow> real option" where
  "sampleDecode a = (if a = ''bad'' then None else Some (real (length a)))"

text \<open>
  States reached from the first render: connected (key given, audio set up, session
  opened), with three buffers of 2, 3 and 1 seconds scheduled at clock 0, then
  interrupted at clock 1, and after a local disconnect.
\<close>

definition connectedApp :: App where
  "connectedApp = onopen (connectToLiveAPI AudioReady Fulfilled (initialApp ''key''))"

definition playingApp :: App where
  "playingApp =
     onmessage sampleDecode 0
       (onmessage sampleDecode 0
         (onmessage sampleDecode 0 connectedApp (audioMessage ''ab''))
         (audioMessage ''abc''))
       (audioMessage ''a'')"

definition interruptedApp :: App where
  "interruptedApp = onmessage sampleDecode 1 playingApp interruptionMessage"

definition disconnectedApp :: App where
  "disconnectedApp = handleDisconnect connectedApp"

text \<open>A call of a tool the client does not know.\<close>

definition searchWeb :: FunctionCall where
  "searchWeb = \<lparr>fc_id = ''call-2'', fc_name = ''searchWeb'', fc_args = [''name'' \<mapsto> ''Zed'']\<rparr>"

section \<open>Lemmas about the three parts of \<open>onmessage\<close>\<close>

lemma startTimes_append: "startTimes (xs @ ys) = startTimes xs @ startTimes ys"
  by (induction xs rule: startTimes.induct) simp_all

lemma startTimes_stops: "startTimes (map SourceStop hs) = []"
  by (induction hs) simp_all

lemma toolCallLoop_closed:
  "toolCallLoop fcs s responses =
     (s\<lparr>leadData := fold (\<lambda>fc m. m ++ fc_args fc) (leadUpdates fcs) (leadData s),
        logs := logs s @ map (\<lambda>fc. \<lparr>log_role = RoleAssistant, log_text = CrmUpdate (fc_args fc)\<rparr>)
                  (leadUpdates fcs)\<rparr>,
      responses @ map successResponse (leadUpdates fcs))"
  by (induction fcs arbitrary: s responses) (simp_all add: leadUpdates_def addLog_def Let_def)

lemma handleToolCall_closed:
  "toolCall msg = Some fcs \<Longrightarrow>
   handleToolCall s msg =
     (let s1 = s\<lparr>leadData := fold (\<lambda>fc m. m ++ fc_args fc) (leadUpdates fcs) (leadData s),
                  logs := logs s @ map (\<lambda>fc. \<lparr>log_role = RoleAssistant, log_text = CrmUpdate (fc_args fc)\<rparr>)
                            (leadUpdates fcs)\<rparr>
      in if sessionPromiseRef s = Some Fulfilled
         then emit [SendToolResponse (map successResponse (leadUpdates fcs))] s1 else s1)"
  by (simp add: handleToolCall_def toolCallLoop_closed Let_def split: option.splits SessionPromise.splits)

lemma handleToolCall_fields:
  "nextStartTimeRef (handleToolCall s msg) = nextStartTimeRef s"
  "outputAudioContextRef (handleToolCall s msg) = outputAudioContextRef s"
  "scheduledSourcesRef (handleToolCall s msg) = scheduledSourcesRef s"
  "isModelSpeaking (handleToolCall s msg) = isModelSpeaking s"
  "created (handleToolCall s msg) = created s"
  "sessionPromiseRef (handleToolCall s msg) = sessionPromiseRef s"
  "startTimes (trace (handleToolCall s msg)) = startTimes (trace s)"
  by (simp_all add: handleToolCall_def toolCallLoop_closed emit_def startTimes_append
        split: option.splits SessionPromise.splits)

lemma handleAudio_fields:
  "leadData (handleAudio decode now s msg) = leadData s"
  "outputAudioContextRef (handleAudio decode now s msg) = outputAudioContextRef s"
  "sessionPromiseRef (handleAudio decode now s msg) = sessionPromiseRef s"
  by (simp_all add: handleAudio_def Let_def emit_def split: option.splits)

lemma handleInterrupted_fields:
  "leadData (handleInterrupted now s msg) = leadData s"
  "outputAudioContextRef (handleInterrupted now s msg) = outputAudioContextRef s"
  "sessionPromiseRef (handleInterrupted now s msg) = sessionPromiseRef s"
  "startTimes (trace (handleInterrupted now s msg)) = startTimes (trace s)"
  by (simp_all add: handleInterrupted_def Let_def emit_def addLog_def startTimes_append startTimes_stops)

lemma handleAudio_decoded:
  "outputAudioContextRef s \<Longrightarrow> audioData msg = Some a \<Longrightarrow> a \<noteq> [] \<Longrightarrow> decode a = Some d \<Longrightarrow>
   handleAudio decode now s msg =
     (let t = (if nextStartTimeRef s < now then now + 0.05 else nextStartTimeRef s)
      in s\<lparr>isModelSpeaking := True, nextStartTimeRef := t + d,
           scheduledSourcesRef := scheduledSourcesRef s @ [created s],
           created := Suc (created s),
           trace := trace s @ [SourceStart (created s) t d]\<rparr>)"
  by (simp add: handleAudio_def Let_def emit_def)

lemma handleAudio_starts:
  "\<exists>new. startTimes (trace (handleAudio decode now s msg)) = startTimes (trace s) @ new
      \<and> (\<forall>t\<in>set new. now \<le> t)"
  by (auto simp add: handleAudio_def Let_def emit_def startTimes_append split: option.splits)


lemma onmessage_starts:
  "\<exists>new. startTimes (trace (onmessage decode now s msg)) = startTimes (trace s) @ new
      \<and> (\<forall>t\<in>set new. now \<le> t)"
  using handleAudio_starts [of decode now "handleToolCall s msg" msg]
  by (simp add: onmessage_def handleInterrupted_fields handleToolCall_fields)

lemma onmessage_catch_up:
  assumes "outputAudioContextRef s" "audioData msg = Some a" "a \<noteq> []" "decode a = Some d"
    "nextStartTimeRef s < now"
  shows "startTimes (trace (onmessage decode now s msg)) = startTimes (trace s) @ [now + 0.05]"
  using assms
  by (simp add: onmessage_def handleInterrupted_fields handleToolCall_fields
        handleAudio_decoded [where a = a and d = d] startTimes_append Let_def)

lemma connectedApp_simps:
  "outputAudioContextRef connectedApp" "nextStartTimeRef connectedApp = 0" 
  "created connectedApp = 0" "scheduledSourcesRef connectedApp = []"
  "sessionPromiseRef connectedApp = Some Fulfilled"
  "\<not> isModelSpeaking connectedApp" "leadData connectedApp = Map.empty"
  "connectionState connectedApp = CONNECTED"
  "trace connectedApp = [SetConnectionState CONNECTING, GetUserMedia, LiveConnect,
  SetConnectionState CONNECTED]"
  by (simp_all add: connectedApp_def onopen_def connectToLiveAPI_def initialApp_def
      initializeAudio_def setConnectionState_def emit_def addLog_def Let_def)

lemma onmessage_audio_decoded:
  assumes "outputAudioContextRef s" "a \<noteq> []" "decode a = Some d"
  shows "onmessage decode now s (audioMessage a) =
     (let t = (if nextStartTimeRef s < now then now + 0.05 else nextStartTimeRef s)
      in s\<lparr>isModelSpeaking := True, nextStartTimeRef := t + d,
           scheduledSourcesRef := scheduledSourcesRef s @ [created s],
           created := Suc (created s),
           trace := trace s @ [SourceStart (created s) t d]\<rparr>)"
  using assms
  by (simp add: onmessage_def handleToolCall_def handleInterrupted_def audioMessage_def
        handleAudio_decoded [where a = a and d = d])

lemma onmessage_audio_fields:
  assumes "outputAudioContextRef s" "a \<noteq> []" "decode a = Some d"
  shows "outputAudioContextRef (onmessage decode now s (audioMessage a))"
    and "nextStartTimeRef (onmessage decode now s (audioMessage a))
           = (if nextStartTimeRef s < now then now + 0.05 else nextStartTimeRef s) + d"
    and "created (onmessage decode now s (audioMessage a)) = Suc (created s)"
    and "trace (onmessage decode now s (audioMessage a))
           = trace s @ [SourceStart (created s)
                (if nextStartTimeRef s < now then now + 0.05 else nextStartTimeRef s) d]"
    and "scheduledSourcesRef (onmessage decode now s (audioMessage a))
           = scheduledSourcesRef s @ [created s]"
    and "isModelSpeaking (onmessage decode now s (audioMessage a))"
  using assms by (simp_all add: onmessage_audio_decoded [where d = d] Let_def)

lemma handleAudio_keeps_sources:
  "set (scheduledSourcesRef s) \<subseteq> set (scheduledSourcesRef (handleAudio decode now s msg))"
  by (auto simp add: handleAudio_def Let_def emit_def split: option.splits)

lemma handleInterrupted_cut:
  assumes "interrupted msg"
  shows "scheduledSourcesRef (handleInterrupted now s msg) = []"
    and "\<not> isModelSpeaking (handleInterrupted now s msg)"
    and "outputAudioContextRef s \<Longrightarrow> nextStartTimeRef (handleInterrupted now s msg) = now"
    and "trace (handleInterrupted now s msg) = trace s @ map SourceStop (scheduledSourcesRef s)"
  using assms by (simp_all add: handleInterrupted_def Let_def emit_def addLog_def)

lemma onmessage_interrupted:
  assumes "interrupted msg"
  shows "scheduledSourcesRef (onmessage decode now s msg) = []"
    and "\<not> isModelSpeaking (onmessage decode now s msg)"
    and "outputAudioContextRef s \<Longrightarrow> nextStartTimeRef (onmessage decode now s msg) = now"
    and "h \<in> set (scheduledSourcesRef s) \<Longrightarrow> SourceStop h \<in> set (trace (onmessage decode now s msg))"
proof -
  show "scheduledSourcesRef (onmessage decode now s msg) = []"
    and "\<not> isModelSpeaking (onmessage decode now s msg)"
    using assms by (simp_all add: onmessage_def handleInterrupted_cut)
  show "outputAudioContextRef s \<Longrightarrow> nextStartTimeRef (onmessage decode now s msg) = now"
    using assms
    by (simp add: onmessage_def handleInterrupted_cut handleAudio_fields handleToolCall_fields)
  show "h \<in> set (scheduledSourcesRef s) \<Longrightarrow> SourceStop h \<in> set (trace (onmessage decode now s msg))"
  proof -
    assume "h \<in> set (scheduledSourcesRef s)"
    then have "h \<in> set (scheduledSourcesRef (handleAudio decode now (handleToolCall s msg) msg))"
      using handleAudio_keeps_sources [of "handleToolCall s msg" decode now msg]
      by (auto simp add: handleToolCall_fields)
    then show ?thesis
      using assms by (simp add: onmessage_def handleInterrupted_cut)
  qed
qed

lemma onmessage_keeps_context:
  "outputAudioContextRef (onmessage decode now s msg) = outputAudioContextRef s"
  by (simp add: onmessage_def handleInterrupted_fields handleAudio_fields handleToolCall_fields)

lemma playingApp_simps:
  "outputAudioContextRef playingApp" "nextStartTimeRef playingApp = 6"
  "created playingApp = 3" "scheduledSourcesRef playingApp = [0, 1, 2]"
  "isModelSpeaking playingApp"
  "trace playingApp = trace connectedApp @ [SourceStart 0 0 2, SourceStart 1 2 3, SourceStart 2 5 1]"
  by (simp_all add: playingApp_def connectedApp_simps sampleDecode_def
        onmessage_audio_decoded [where decode = sampleDecode] Let_def)

lemma interruptedApp_simps:
  "outputAudioContextRef interruptedApp" "nextStartTimeRef interruptedApp = 1"
  "created interruptedApp = 3" "scheduledSourcesRef interruptedApp = []"
  "\<not> isModelSpeaking interruptedApp"
  "trace interruptedApp = trace playingApp @ [SourceStop 0, SourceStop 1, SourceStop 2]"
  by (simp_all add: interruptedApp_def playingApp_simps onmessage_def handleToolCall_def
        handleAudio_def handleInterrupted_def interruptionMessage_def Let_def emit_def addLog_def)

lemma interruptionMessage_interrupted: "interrupted interruptionMessage"
  by (simp add: interruptionMessage_def)

lemma onmessage_leadData:
  "leadData (onmessage decode now s msg) = leadData (handleToolCall s msg)"
  by (simp add: onmessage_def handleInterrupted_fields handleAudio_fields)

lemma handleToolCall_leadData:
  "leadData (handleToolCall s msg) =
     (case toolCall msg of None \<Rightarrow> leadData s
      | Some fcs \<Rightarrow> fold (\<lambda>fc m. m ++ fc_args fc) (leadUpdates fcs) (leadData s))"
  by (simp add: handleToolCall_def toolCallLoop_closed emit_def
        split: option.splits SessionPromise.splits)

lemma leadUpdates_updateLeadInfo: "leadUpdates (updateLeadInfo i args # fcs) = updateLeadInfo i args # leadUpdates fcs"
  by (simp add: leadUpdates_def updateLeadInfo_def)

lemma leadUpdates_Nil: "leadUpdates [] = []"
  by (simp add: leadUpdates_def)

lemma onmessage_one_update:
  "leadData (onmessage decode now s (toolCallMessage [updateLeadInfo i args])) = leadData s ++ args"
  by (simp add: onmessage_leadData handleToolCall_leadData toolCallMessage_def
        leadUpdates_updateLeadInfo leadUpdates_Nil, simp add: updateLeadInfo_def)

lemma onmessage_update_sequence:
  "leadData (fold (\<lambda>args s. onmessage decode now s (toolCallMessage [updateLeadInfo i args])) argss s)
     = fold (\<lambda>args m. m ++ args) argss (leadData s)"
  by (induction argss arbitrary: s) (simp_all add: onmessage_one_update)

lemma handleAudio_trace:
  "\<exists>rest. trace (handleAudio decode now s msg) = trace s @ rest
      \<and> (\<forall>rs. SendToolResponse rs \<notin> set rest)"
  by (auto simp add: handleAudio_def Let_def emit_def split: option.splits)

lemma handleInterrupted_trace:
  "\<exists>rest. trace (handleInterrupted now s msg) = trace s @ rest
      \<and> (\<forall>rs. SendToolResponse rs \<notin> set rest)"
  by (auto simp add: handleInterrupted_def Let_def emit_def addLog_def)

lemma onmessage_trace:
  "\<exists>rest. trace (onmessage decode now s msg) = trace (handleToolCall s msg) @ rest
      \<and> (\<forall>rs. SendToolResponse rs \<notin> set rest)"
proof -
  obtain r1 where r1: "trace (handleAudio decode now (handleToolCall s msg) msg)
      = trace (handleToolCall s msg) @ r1" "\<forall>rs. SendToolResponse rs \<notin> set r1"
    using handleAudio_trace by blast
  obtain r2 where r2: "trace (onmessage decode now s msg)
      = trace (handleAudio decode now (handleToolCall s msg) msg) @ r2"
      "\<forall>rs. SendToolResponse rs \<notin> set r2"
    unfolding onmessage_def using handleInterrupted_trace by blast
  have "trace (onmessage decode now s msg) = trace (handleToolCall s msg) @ (r1 @ r2)"
    using r1(1) r2(1) by simp
  moreover have "\<forall>rs. SendToolResponse rs \<notin> set (r1 @ r2)" using r1(2) r2(2) by simp
  ultimately show ?thesis by blast
qed

lemma handleToolCall_trace:
  "toolCall msg = Some fcs \<Longrightarrow>
   trace (handleToolCall s msg) =
     (if sessionPromiseRef s = Some Fulfilled
      then trace s @ [SendToolResponse (map successResponse (leadUpdates fcs))] else trace s)"
  by (simp add: handleToolCall_closed Let_def emit_def)

lemma disconnectedApp_simps:
  "sessionPromiseRef disconnectedApp = None" "leadData disconnectedApp = Map.empty"
  "connectionState disconnectedApp = DISCONNECTED"
  "trace disconnectedApp = trace connectedApp @ [ProcessorDisconnect, SourceDisconnect, TracksStop,
     InputContextClose, OutputContextClose, SetConnectionState DISCONNECTED]"
  by (simp_all add: disconnectedApp_def handleDisconnect_def stopAudio_def setConnectionState_def
        emit_def Let_def connectedApp_def onopen_def connectToLiveAPI_def initialApp_def
        initializeAudio_def addLog_def)

lemma leadUpdates_skip:
  "fc_name fc \<noteq> ''updateLeadInfo'' \<Longrightarrow> leadUpdates (pre @ fc # post) = leadUpdates (pre @ post)"
  by (simp add: leadUpdates_def)

lemma leadUpdates_none:
  "(\<forall>fc\<in>set fcs. fc_name fc \<noteq> ''updateLeadInfo'') \<Longrightarrow> leadUpdates fcs = []"
  by (simp add: leadUpdates_def)

lemma handleToolCall_leadUpdates:
  "leadUpdates fcs = leadUpdates fcs' \<Longrightarrow>
   handleToolCall s (msg\<lparr>toolCall := Some fcs\<rparr>) = handleToolCall s (msg\<lparr>toolCall := Some fcs'\<rparr>)"
  by (simp add: handleToolCall_def toolCallLoop_closed)

lemma handleAudio_toolCall_update:
  "handleAudio decode now s (msg\<lparr>toolCall := tc\<rparr>) = handleAudio decode now s msg"
  by (simp add: handleAudio_def)

lemma handleInterrupted_toolCall_update:
  "handleInterrupted now s (msg\<lparr>toolCall := tc\<rparr>) = handleInterrupted now s msg"
  by (simp add: handleInterrupted_def)

lemma stopAudio_fields:
  "\<not> processorRef (stopAudio s)" "\<not> sourceRef (stopAudio s)" "\<not> mediaStreamRef (stopAudio s)"
  "\<not> inputAudioContextRef (stopAudio s)" "\<not> outputAudioContextRef (stopAudio s)"
  "scheduledSourcesRef (stopAudio s) = []" "nextStartTimeRef (stopAudio s) = 0"
  "leadData (stopAudio s) = leadData s" "connectionState (stopAudio s) = connectionState s"
  by (simp_all add: stopAudio_def Let_def emit_def)

lemma stopAudio_trace:
  "trace (stopAudio s) = trace s
     @ (if processorRef s then [ProcessorDisconnect] else [])
     @ (if sourceRef s then [SourceDisconnect] else [])
     @ (if mediaStreamRef s then [TracksStop] else [])
     @ (if inputAudioContextRef s then [InputContextClose] else [])
     @ (if outputAudioContextRef s then [OutputContextClose] else [])
     @ map SourceStop (scheduledSourcesRef s)"
  by (simp add: stopAudio_def Let_def emit_def)

lemma sumSquares_fold: "fold (\<lambda>x sum. sum + x * x) xs acc = acc + sum_list (map (\<lambda>x. x * x) xs)"
  by (induction xs arbitrary: acc) (simp_all add: algebra_simps)

lemma sumSquares_sum_list: "sumSquares xs = (\<Sum>x\<leftarrow>xs. x * x)"
  by (simp add: sumSquares_def sumSquares_fold)

lemma sumSquares_nonneg: "0 \<le> sumSquares xs"
  unfolding sumSquares_sum_list by (induction xs) simp_all

text \<open>
  The speaking indicator follows the set of scheduled sources through every message whose
  audio payload decodes, and through every \<open>onended\<close>.
\<close>

lemma speaking_indicator_kept_by_onmessage:
  assumes inv: "isModelSpeaking s \<longleftrightarrow> scheduledSourcesRef s \<noteq> []"
    and dec: "\<And>a. audioData msg = Some a \<Longrightarrow> a \<noteq> [] \<Longrightarrow> outputAudioContextRef s
                \<Longrightarrow> decode a \<noteq> None"
  shows "isModelSpeaking (onmessage decode now s msg)
           \<longleftrightarrow> scheduledSourcesRef (onmessage decode now s msg) \<noteq> []"
proof -
  let ?s1 = "handleToolCall s msg"
  have "isModelSpeaking (handleAudio decode now ?s1 msg)
          \<longleftrightarrow> scheduledSourcesRef (handleAudio decode now ?s1 msg) \<noteq> []"
    using inv dec
    by (auto simp add: handleAudio_def Let_def emit_def handleToolCall_fields split: option.splits)
  then show ?thesis
    by (simp add: onmessage_def handleInterrupted_def Let_def emit_def addLog_def)
qed

lemma speaking_indicator_kept_by_onended:
  assumes "isModelSpeaking s \<longleftrightarrow> scheduledSourcesRef s \<noteq> []"
  shows "isModelSpeaking (onended source s) \<longleftrightarrow> scheduledSourcesRef (onended source s) \<noteq> []"
  using assms by (auto simp add: onended_def Let_def)

section \<open>Playback scheduling\<close>

text \<open>
  C3. When a buffer arrives (the output context is held and the payload decodes) while
  the cursor \<open>nextStartTimeRef\<close> is strictly behind the clock \<open>now\<close>, it is started at
  \<open>now + 0.05\<close>. And whatever the state and the message, every start time that
  \<open>onmessage\<close> passes to \<^verbatim>\<open>source.start\<close> is at or after \<open>now\<close>: no buffer is
  scheduled in the past.
\<close>

theorem catch_up_never_in_past:
  "(outputAudioContextRef s \<and> audioData msg = Some a \<and> a \<noteq> [] \<and> decode a = Some d
      \<and> nextStartTimeRef s < now
     \<longrightarrow> startTimes (trace (onmessage decode now s msg)) = startTimes (trace s) @ [now + 0.05])
   \<and> (\<exists>new. startTimes (trace (onmessage decode now s msg)) = startTimes (trace s) @ new
          \<and> (\<forall>t\<in>set new. now \<le> t))"
  using onmessage_catch_up [of s msg a decode d now] onmessage_starts [of decode now s msg]
  by blast

theorem catch_up_never_in_past_witness:
  "startTimes (trace (onmessage sampleDecode 7 connectedApp (audioMessage ''ab''))) = [7 + 0.05]
   \<and> (\<exists>new. startTimes (trace (onmessage sampleDecode 7 connectedApp (audioMessage ''ab'')))
               = [] @ new \<and> (\<forall>t\<in>set new. 7 \<le> t))"
  using catch_up_never_in_past [of connectedApp "audioMessage ''ab''" "''ab''" sampleDecode 2 7]
  by (simp add: connectedApp_simps audioMessage_def sampleDecode_def)

text \<open>
  C2. Three buffers that decode to durations \<open>d1\<close>, \<open>d2\<close>, \<open>d3\<close> arrive one after
  the other while the clock reads 0 and the cursor starts at 0: the first is started at 0,
  the second at \<open>d1\<close>, the third at \<open>d1 + d2\<close>, each where the one before ends.
  Durations are not negative.
\<close>

theorem gapless_scheduling:
  assumes ctx: "outputAudioContextRef s" and cursor: "nextStartTimeRef s = 0"
    and a: "a1 \<noteq> []" "a2 \<noteq> []" "a3 \<noteq> []"
    and d: "decode a1 = Some d1" "decode a2 = Some d2" "decode a3 = Some d3"
    and nonneg: "0 \<le> d1" "0 \<le> d2"
  shows "trace (onmessage decode 0 (onmessage decode 0 (onmessage decode 0 s
            (audioMessage a1)) (audioMessage a2)) (audioMessage a3))
         = trace s @ [SourceStart (created s) 0 d1,
                      SourceStart (created s + 1) d1 d2,
                      SourceStart (created s + 2) (d1 + d2) d3]"
proof -
  define s1 where "s1 = onmessage decode 0 s (audioMessage a1)"
  define s2 where "s2 = onmessage decode 0 s1 (audioMessage a2)"
  note f1 = onmessage_audio_fields [where decode = decode and now = 0, OF ctx a(1) d(1), folded s1_def]
  have c1: "nextStartTimeRef s1 = d1" using f1(2) cursor by simp
  note f2 = onmessage_audio_fields [where decode = decode and now = 0, OF f1(1) a(2) d(2), folded s2_def]
  have c2: "nextStartTimeRef s2 = d1 + d2" using f2(2) c1 nonneg(1) by simp
  note f3 = onmessage_audio_fields [where decode = decode and now = 0, OF f2(1) a(3) d(3)]
  have "trace (onmessage decode 0 s2 (audioMessage a3))
          = trace s @ [SourceStart (created s) 0 d1, SourceStart (created s + 1) d1 d2,
                       SourceStart (created s + 2) (d1 + d2) d3]"
    using f3(4) f2(3,4) f1(3,4) c1 c2 cursor nonneg by simp
  then show ?thesis by (simp add: s2_def s1_def)
qed

theorem gapless_scheduling_witness:
  "trace playingApp = trace connectedApp @ [SourceStart 0 0 2, SourceStart 1 2 3, SourceStart 2 5 1]"
  using gapless_scheduling [of connectedApp "''ab''" "''abc''" "''a''" sampleDecode 2 3 1]
  by (simp add: playingApp_def connectedApp_simps sampleDecode_def)

section \<open>Interruption\<close>

text \<open>
  C1, as the code has it. A message with the interruption flag, handled while the output
  context is held and its clock reads \<open>now\<close>, leaves the set of scheduled sources empty
  and the speaking indicator false, sets the cursor to \<open>now\<close>, and calls
  \<^verbatim>\<open>stop\<close> on every source that was in the set. A buffer that arrives next, at
  clock \<open>now'\<close> with \<open>now \<le> now'\<close>, is started at the reset cursor \<open>now\<close> when the
  clock has not moved and at \<open>now' + 0.05\<close> when it has; the cursor queued before the
  interruption plays no part.
\<close>

theorem interruption_cuts_playback:
  assumes ctx: "outputAudioContextRef s" and int: "interrupted msg"
  shows "scheduledSourcesRef (onmessage decode now s msg) = []
     \<and> \<not> isModelSpeaking (onmessage decode now s msg)
     \<and> nextStartTimeRef (onmessage decode now s msg) = now
     \<and> (\<forall>h\<in>set (scheduledSourcesRef s). SourceStop h \<in> set (trace (onmessage decode now s msg)))
     \<and> (a \<noteq> [] \<and> decode a = Some d \<and> now \<le> now' \<longrightarrow>
          startTimes (trace (onmessage decode now' (onmessage decode now s msg) (audioMessage a)))
            = startTimes (trace (onmessage decode now s msg))
                @ [if now < now' then now' + 0.05 else now])"
proof -
  let ?s = "onmessage decode now s msg"
  have c: "outputAudioContextRef ?s" using ctx by (simp add: onmessage_keeps_context)
  have n: "nextStartTimeRef ?s = now" using ctx int by (rule onmessage_interrupted(3) [rotated])
  have "startTimes (trace (onmessage decode now' ?s (audioMessage a)))
            = startTimes (trace ?s) @ [if now < now' then now' + 0.05 else now]"
    if "a \<noteq> []" "decode a = Some d"
    using onmessage_audio_fields(4) [where decode = decode and now = now', OF c that] n
    by (simp add: startTimes_append)
  then show ?thesis
    using onmessage_interrupted [where decode = decode and now = now and s = s, OF int] ctx
    by simp
qed

theorem interruption_cuts_playback_witness:
  "scheduledSourcesRef interruptedApp = [] \<and> \<not> isModelSpeaking interruptedApp
   \<and> nextStartTimeRef interruptedApp = 1
   \<and> SourceStop 0 \<in> set (trace interruptedApp)
   \<and> SourceStop 1 \<in> set (trace interruptedApp)
   \<and> SourceStop 2 \<in> set (trace interruptedApp)
   \<and> startTimes (trace (onmessage sampleDecode 2 interruptedApp (audioMessage ''ab'')))
        = startTimes (trace interruptedApp) @ [2 + 0.05]"
  using interruption_cuts_playback [of playingApp interruptionMessage sampleDecode 1 "''ab''" 2 2]
  by (simp add: interruptedApp_def [symmetric] playingApp_simps interruptionMessage_interrupted
        sampleDecode_def)

text \<open>
  C1 as stated fails when the clock has moved on: interrupted at clock 1 (the cursor is
  reset to 1), a buffer arriving at clock 2 is started at 2.05, not at the reset cursor.
\<close>

theorem later_buffer_not_at_reset_cursor:
  "nextStartTimeRef interruptedApp = 1
   \<and> startTimes (trace (onmessage sampleDecode 2 interruptedApp (audioMessage ''ab'')))
        \<noteq> startTimes (trace interruptedApp) @ [nextStartTimeRef interruptedApp]"
  by (simp add: interruptedApp_simps sampleDecode_def
        onmessage_audio_fields [where decode = sampleDecode and d = 2] startTimes_append)

section \<open>The speaking indicator\<close>

text \<open>
  C4 at the input where the code breaks it. In the connected state nothing is scheduled
  and the indicator is false. A message whose audio payload does not decode sets the
  indicator (before the \<^verbatim>\<open>try\<close>) and the \<^verbatim>\<open>catch\<close> does not clear it:
  afterwards the indicator is true while the set of scheduled sources is empty.
\<close>

theorem decode_failure_leaves_speaking_on:
  "\<not> isModelSpeaking connectedApp \<and> scheduledSourcesRef connectedApp = []
   \<and> isModelSpeaking (onmessage sampleDecode 0 connectedApp (audioMessage ''bad''))
   \<and> scheduledSourcesRef (onmessage sampleDecode 0 connectedApp (audioMessage ''bad'')) = []"
  by (simp add: connectedApp_simps onmessage_def handleToolCall_def handleAudio_def
        handleInterrupted_def audioMessage_def sampleDecode_def)

section \<open>Tool calls\<close>

text \<open>
  C5. Applying \<open>updateLeadInfo\<close> calls is an additive merge. One call overwrites the
  fields its arguments have and keeps every other field (\<open>leadData s ++ args\<close>); a
  sequence of calls, one per message, is the fold of that merge over the lead record.
  From the empty record, \<open>{name: Asha}\<close> then \<open>{company: Acme}\<close> gives both fields,
  and \<open>{name: Beta}\<close> afterwards changes the name only.
\<close>

theorem lead_merge_additive:
  "leadData (onmessage decode now s (toolCallMessage [updateLeadInfo i args])) k
     = (case args k of Some v \<Rightarrow> Some v | None \<Rightarrow> leadData s k)
   \<and> leadData (fold (\<lambda>args s. onmessage decode now s (toolCallMessage [updateLeadInfo i args]))
          argss s)
     = fold (\<lambda>args m. m ++ args) argss (leadData s)
   \<and> leadData
        (onmessage decode now
          (onmessage decode now (initialApp key)
             (toolCallMessage [updateLeadInfo i1 [''name'' \<mapsto> ''Asha'']]))
          (toolCallMessage [updateLeadInfo i2 [''company'' \<mapsto> ''Acme'']]))
     = [''name'' \<mapsto> ''Asha'', ''company'' \<mapsto> ''Acme'']
   \<and> leadData
        (onmessage decode now
          (onmessage decode now
            (onmessage decode now (initialApp key)
               (toolCallMessage [updateLeadInfo i1 [''name'' \<mapsto> ''Asha'']]))
            (toolCallMessage [updateLeadInfo i2 [''company'' \<mapsto> ''Acme'']]))
          (toolCallMessage [updateLeadInfo i3 [''name'' \<mapsto> ''Beta'']]))
     = [''name'' \<mapsto> ''Beta'', ''company'' \<mapsto> ''Acme'']"
proof -
  have init: "leadData (initialApp key) = Map.empty" by (simp add: initialApp_def)
  have "leadData (onmessage decode now s (toolCallMessage [updateLeadInfo i args])) k
     = (case args k of Some v \<Rightarrow> Some v | None \<Rightarrow> leadData s k)"
    by (simp add: onmessage_one_update map_add_def split: option.splits)
  moreover have "([''name'' \<mapsto> ''Asha''] ++ [''company'' \<mapsto> ''Acme''] :: LeadData)
      = [''name'' \<mapsto> ''Asha'', ''company'' \<mapsto> ''Acme'']"
    by simp
  moreover have "([''name'' \<mapsto> ''Asha'', ''company'' \<mapsto> ''Acme''] ++ [''name'' \<mapsto> ''Beta''] :: LeadData)
      = [''name'' \<mapsto> ''Beta'', ''company'' \<mapsto> ''Acme'']"
    by (auto simp add: fun_eq_iff)
  ultimately show ?thesis
    by (simp only: onmessage_one_update onmessage_update_sequence init empty_map_add)
qed

text \<open>
  C7, as the code has it. Every \<open>updateLeadInfo\<close> call of a tool-call message, whatever
  fields its arguments have, is merged into the lead record, and the response list holds
  for it a success result with the call's own identifier. The list is sent
  (\<^verbatim>\<open>sendToolResponse\<close>) when \<open>sessionPromiseRef\<close> holds a fulfilled session
  promise; when it does not (it is \<^verbatim>\<open>null\<close> after \<open>handleDisconnect\<close>), the merge
  is done and nothing is sent.
\<close>

theorem tool_calls_merged_and_acknowledged:
  assumes tc: "toolCall msg = Some fcs"
  shows "leadData (onmessage decode now s msg)
           = fold (\<lambda>fc m. m ++ fc_args fc) (leadUpdates fcs) (leadData s)
     \<and> (\<forall>fc\<in>set fcs. fc_name fc = ''updateLeadInfo'' \<longrightarrow>
           \<lparr>fr_id = fc_id fc, fr_name = ''updateLeadInfo'',
            fr_result = ''CRM Updated Successfully''\<rparr>
             \<in> set (map successResponse (leadUpdates fcs)))
     \<and> (sessionPromiseRef s = Some Fulfilled \<longrightarrow>
           (\<exists>rest. trace (onmessage decode now s msg)
              = trace s @ SendToolResponse (map successResponse (leadUpdates fcs)) # rest))
     \<and> (sessionPromiseRef s \<noteq> Some Fulfilled \<longrightarrow>
           (\<forall>rs. SendToolResponse rs \<in> set (trace (onmessage decode now s msg))
              \<longrightarrow> SendToolResponse rs \<in> set (trace s)))"
proof -
  obtain rest where rest: "trace (onmessage decode now s msg) = trace (handleToolCall s msg) @ rest"
    "\<forall>rs. SendToolResponse rs \<notin> set rest"
    using onmessage_trace by blast
  have "leadData (onmessage decode now s msg)
           = fold (\<lambda>fc m. m ++ fc_args fc) (leadUpdates fcs) (leadData s)"
    using tc by (simp add: onmessage_leadData handleToolCall_leadData)
  moreover have "\<lparr>fr_id = fc_id fc, fr_name = ''updateLeadInfo'',
            fr_result = ''CRM Updated Successfully''\<rparr>
             \<in> set (map successResponse (leadUpdates fcs))"
    if "fc \<in> set fcs" "fc_name fc = ''updateLeadInfo''" for fc
  proof -
    have "fc \<in> set (leadUpdates fcs)" using that by (simp add: leadUpdates_def)
    then have "successResponse fc \<in> set (map successResponse (leadUpdates fcs))" by simp
    then show ?thesis using that(2) by (simp add: successResponse_def)
  qed
  moreover have "\<exists>rest. trace (onmessage decode now s msg)
              = trace s @ SendToolResponse (map successResponse (leadUpdates fcs)) # rest"
    if "sessionPromiseRef s = Some Fulfilled"
    using rest(1) that tc by (simp add: handleToolCall_trace)
  moreover have "SendToolResponse rs \<in> set (trace s)"
    if "sessionPromiseRef s \<noteq> Some Fulfilled"
      "SendToolResponse rs \<in> set (trace (onmessage decode now s msg))" for rs
    using rest that tc by (simp add: handleToolCall_trace)
  ultimately show ?thesis by blast
qed

theorem tool_calls_merged_and_acknowledged_witness:
  "leadData (onmessage sampleDecode 0 connectedApp
       (toolCallMessage [updateLeadInfo ''call-1'' [''name'' \<mapsto> ''Asha'']]))
     = [''name'' \<mapsto> ''Asha'']
   \<and> (\<exists>rest. trace (onmessage sampleDecode 0 connectedApp
          (toolCallMessage [updateLeadInfo ''call-1'' [''name'' \<mapsto> ''Asha'']]))
        = trace connectedApp @ SendToolResponse [\<lparr>fr_id = ''call-1'', fr_name = ''updateLeadInfo'',
            fr_result = ''CRM Updated Successfully''\<rparr>] # rest)
   \<and> SendToolResponse [\<lparr>fr_id = ''call-1'', fr_name = ''updateLeadInfo'',
            fr_result = ''CRM Updated Successfully''\<rparr>]
        \<notin> set (trace (onmessage sampleDecode 0 disconnectedApp
          (toolCallMessage [updateLeadInfo ''call-1'' [''name'' \<mapsto> ''Asha'']])))"
  using tool_calls_merged_and_acknowledged [of "toolCallMessage [updateLeadInfo ''call-1'' [''name'' \<mapsto> ''Asha'']]"
      "[updateLeadInfo ''call-1'' [''name'' \<mapsto> ''Asha'']]" sampleDecode 0 connectedApp]
    tool_calls_merged_and_acknowledged [of "toolCallMessage [updateLeadInfo ''call-1'' [''name'' \<mapsto> ''Asha'']]"
      "[updateLeadInfo ''call-1'' [''name'' \<mapsto> ''Asha'']]" sampleDecode 0 disconnectedApp]
  by (simp add: toolCallMessage_def leadUpdates_updateLeadInfo leadUpdates_Nil connectedApp_simps
        disconnectedApp_simps, simp add: updateLeadInfo_def successResponse_def)

text \<open>
  C7 as stated fails after a local disconnect, which drops the session reference and
  leaves the remote session open: a lead update that arrives then is merged and is not
  acknowledged.
\<close>

theorem no_acknowledgment_after_disconnect:
  "leadData (onmessage sampleDecode 0 disconnectedApp
       (toolCallMessage [updateLeadInfo ''call-1'' [''name'' \<mapsto> ''Asha'']])) ''name''
     = Some ''Asha''
   \<and> trace (onmessage sampleDecode 0 disconnectedApp
       (toolCallMessage [updateLeadInfo ''call-1'' [''name'' \<mapsto> ''Asha'']]))
     = trace disconnectedApp"
  by (simp add: onmessage_def handleToolCall_def handleAudio_def handleInterrupted_def
        toolCallMessage_def updateLeadInfo_def disconnectedApp_simps addLog_def Let_def)

text \<open>
  C10. A function call whose name is not \<open>updateLeadInfo\<close> is skipped by the loop: the
  state and the response list are what they would be without it, and so is the whole
  effect of the message. When no call of the message is an \<open>updateLeadInfo\<close>, the loop
  leaves the state and the response list as they were and the lead record is unchanged.
\<close>

theorem unknown_tool_call_ignored:
  "(fc_name fc \<noteq> ''updateLeadInfo'' \<longrightarrow>
      toolCallLoop (pre @ fc # post) s responses = toolCallLoop (pre @ post) s responses
      \<and> onmessage decode now s (msg\<lparr>toolCall := Some (pre @ fc # post)\<rparr>)
          = onmessage decode now s (msg\<lparr>toolCall := Some (pre @ post)\<rparr>))
   \<and> ((\<forall>fc\<in>set fcs. fc_name fc \<noteq> ''updateLeadInfo'') \<longrightarrow>
      toolCallLoop fcs s responses = (s, responses)
      \<and> leadData (onmessage decode now s (msg\<lparr>toolCall := Some fcs\<rparr>)) = leadData s)"
proof -
  have "toolCallLoop (pre @ fc # post) s responses = toolCallLoop (pre @ post) s responses"
    and "onmessage decode now s (msg\<lparr>toolCall := Some (pre @ fc # post)\<rparr>)
          = onmessage decode now s (msg\<lparr>toolCall := Some (pre @ post)\<rparr>)"
    if "fc_name fc \<noteq> ''updateLeadInfo''"
    using that handleToolCall_leadUpdates [OF leadUpdates_skip [OF that], where s = s and msg = msg]
    by (simp_all add: toolCallLoop_closed leadUpdates_skip onmessage_def
          handleAudio_toolCall_update handleInterrupted_toolCall_update)
  moreover have "toolCallLoop fcs s responses = (s, responses)"
    and "leadData (onmessage decode now s (msg\<lparr>toolCall := Some fcs\<rparr>)) = leadData s"
    if "\<forall>fc\<in>set fcs. fc_name fc \<noteq> ''updateLeadInfo''"
    using leadUpdates_none [OF that]
    by (simp_all add: toolCallLoop_closed onmessage_leadData handleToolCall_leadData)
  ultimately show ?thesis by blast
qed

theorem unknown_tool_call_ignored_witness:
  "onmessage sampleDecode 0 connectedApp (toolCallMessage [searchWeb])
     = onmessage sampleDecode 0 connectedApp (toolCallMessage [])
   \<and> toolCallLoop [searchWeb] connectedApp [] = (connectedApp, [])
   \<and> leadData (onmessage sampleDecode 0 connectedApp (toolCallMessage [searchWeb])) = Map.empty"
proof -
  have unknown: "fc_name searchWeb \<noteq> ''updateLeadInfo''"
    by (simp add: searchWeb_def)
  have msg: "(toolCallMessage [])\<lparr>toolCall := Some fcs\<rparr> = toolCallMessage fcs" for fcs
    by (simp add: toolCallMessage_def)
  show ?thesis
    using unknown unknown_tool_call_ignored [where fc = searchWeb and pre = "[]" and post = "[]"
        and s = connectedApp and responses = "[]" and decode = sampleDecode and now = 0
        and msg = "toolCallMessage []" and fcs = "[searchWeb]"]
    by (auto simp add: msg connectedApp_simps)
qed

section \<open>Connection state\<close>

text \<open>
  C6, as the code has it. A connect request with an empty credential only sets the error
  message: the connection state stays what it was (\<open>DISCONNECTED\<close> from
  \<open>DISCONNECTED\<close>), no state setter is called (so \<open>CONNECTING\<close> is never entered), no
  microphone is asked for, and no session is opened.
\<close>

theorem empty_credential_rejected_locally:
  assumes "apiKey s = []"
  shows "connectToLiveAPI env settles s = s\<lparr>errorMsg := Some ''API Key is required.''\<rparr>
     \<and> connectionState (connectToLiveAPI env settles s) = connectionState s
     \<and> trace (connectToLiveAPI env settles s) = trace s
     \<and> sessionPromiseRef (connectToLiveAPI env settles s) = sessionPromiseRef s"
  using assms by (simp add: connectToLiveAPI_def)

theorem empty_credential_rejected_locally_witness:
  "connectToLiveAPI AudioReady Fulfilled (initialApp '''')
       = (initialApp '''')\<lparr>errorMsg := Some ''API Key is required.''\<rparr>
   \<and> connectionState (connectToLiveAPI AudioReady Fulfilled (initialApp '''')) = DISCONNECTED
   \<and> trace (connectToLiveAPI AudioReady Fulfilled (initialApp '''')) = []
   \<and> sessionPromiseRef (connectToLiveAPI AudioReady Fulfilled (initialApp '''')) = None"
  using empty_credential_rejected_locally [of "initialApp ''''" AudioReady Fulfilled]
  by (simp add: initialApp_def)

text \<open>
  C6 as stated fails: from the first render with an empty key, the state after the
  connect request is not \<open>ERROR\<close>.
\<close>

theorem empty_credential_not_error:
  "connectionState (connectToLiveAPI AudioReady Fulfilled (initialApp '''')) \<noteq> ERROR"
  by (simp add: connectToLiveAPI_def initialApp_def)

text \<open>
  C8. When the session reports closed, the connection state becomes \<open>DISCONNECTED\<close>,
  every capture and playback ref is released (disconnected, stopped or closed when it was
  held, then set to null), every scheduled source is stopped, the set is cleared, the
  cursor is 0, and the lead record is what it was.
\<close>

theorem onclose_releases_audio:
  "connectionState (onclose s) = DISCONNECTED
   \<and> \<not> processorRef (onclose s) \<and> \<not> sourceRef (onclose s) \<and> \<not> mediaStreamRef (onclose s)
   \<and> \<not> inputAudioContextRef (onclose s) \<and> \<not> outputAudioContextRef (onclose s)
   \<and> scheduledSourcesRef (onclose s) = [] \<and> nextStartTimeRef (onclose s) = 0
   \<and> leadData (onclose s) = leadData s
   \<and> trace (onclose s) = trace s @ [SetConnectionState DISCONNECTED]
        @ (if processorRef s then [ProcessorDisconnect] else [])
        @ (if sourceRef s then [SourceDisconnect] else [])
        @ (if mediaStreamRef s then [TracksStop] else [])
        @ (if inputAudioContextRef s then [InputContextClose] else [])
        @ (if outputAudioContextRef s then [OutputContextClose] else [])
        @ map SourceStop (scheduledSourcesRef s)"
  by (simp add: onclose_def stopAudio_fields stopAudio_trace addLog_def setConnectionState_def
        emit_def)

section \<open>Volume meter\<close>

text \<open>
  C9. For a captured frame (not empty; frames have 4096 samples) the volume signal is set
  to \<open>min (5 * sqrt (mean of the squared samples)) 1\<close>, which lies between 0 and 1.
\<close>

theorem volume_meter:
  assumes "inputData \<noteq> []"
  shows "volume (onaudioprocess createPcmBlob inputData s)
           = Some (min (5 * sqrt ((\<Sum>x\<leftarrow>inputData. x * x) / real (length inputData))) 1)
     \<and> (\<exists>v. volume (onaudioprocess createPcmBlob inputData s) = Some v \<and> 0 \<le> v \<and> v \<le> 1)"
  using assms sumSquares_nonneg [of inputData]
  by (simp add: onaudioprocess_def frameVolume_def Let_def emit_def sumSquares_sum_list [symmetric]
        mult.commute split: option.splits SessionPromise.splits)

theorem volume_meter_witness:
  "volume (onaudioprocess (\<lambda>frame. []) [1, -1, 1, -1] connectedApp) = Some 1"
  using volume_meter [of "[1, -1, 1, -1]" "\<lambda>frame. []" connectedApp]
  by simp

end
